theory Spec2Isabelle
  imports Main
begin

section \<open>Python values and errors\<close>

text \<open>
  Every value the program handles comes out of \<^verbatim>\<open>json.loads\<close>, out of \<^verbatim>\<open>input()\<close> or out
  of a literal of \<^verbatim>\<open>main.py\<close>, so one datatype of JSON-shaped Python values is enough.
  A \<^verbatim>\<open>dict\<close> is an association list in insertion order; a \<^verbatim>\<open>str\<close> is the list of its
  UTF-8 bytes. A float is kept as the text of its literal: the program never computes
  with one, and no statement below depends on how a float is spelled.
\<close>

datatype json =
    JNull
  | JBool bool
  | JInt int
  | JFloat string
  | JStr string
  | JArr "json list"
  | JObj "(string \<times> json) list"

datatype error =
    ValueError
  | KeyError json
  | IndexError
  | TypeError
  | AttributeError
  | JSONDecodeError
  | FileNotFoundError
  | EOFError
  | ServiceError
  | NotModelled

section \<open>The world the program runs in\<close>

text \<open>
  What the program reads from outside is a field of the world: the process environment,
  the files beside \<^verbatim>\<open>main.py\<close>, the lines typed on standard input, the random source,
  the text-generation service and the clock. What it does to the outside is appended to
  \<open>trace\<close>, in order, and file writes also update \<open>files\<close>.
\<close>

datatype event =
    MkDir string
  | ReadFile string
  | Input
  | Random nat
  | LlmCall "(string \<times> json) list" string bool
  | WriteFile string string

record world =
  environ :: "string \<Rightarrow> string option"
  files :: "string \<Rightarrow> string option"
  stdin :: "string list"
  rng :: "nat \<Rightarrow> nat"
  service :: "(string \<times> bool) list \<Rightarrow> error + string"
  clock :: string
  trace :: "event list"

type_synonym 'a io = "world \<Rightarrow> (error + 'a) \<times> world"

definition io_return :: "'a \<Rightarrow> 'a io" where
  "io_return x w = (Inr x, w)"

definition io_raise :: "error \<Rightarrow> 'a io" where
  "io_raise e w = (Inl e, w)"

definition io_bind :: "'a io \<Rightarrow> ('a \<Rightarrow> 'b io) \<Rightarrow> 'b io" where
  "io_bind m f w = (case m w of (Inl e, w') \<Rightarrow> (Inl e, w') | (Inr x, w') \<Rightarrow> f x w')"

definition io_lift :: "error + 'a \<Rightarrow> 'a io" where
  "io_lift r w = (r, w)"

definition emit :: "event \<Rightarrow> unit io" where
  "emit e w = (Inr (), w\<lparr>trace := trace w @ [e]\<rparr>)"

section \<open>Draw engine\<close>

text \<open>
  \<^verbatim>\<open>random._randbelow(n)\<close>: the next number of the random source, reduced below \<open>n\<close>.
  Only which indices can come out is modelled, not their distribution.
\<close>

definition randbelow :: "nat \<Rightarrow> nat io" where
  "randbelow n w =
     (Inr (rng w 0 mod n),
      w\<lparr>rng := (\<lambda>i. rng w (Suc i)), trace := trace w @ [Random n]\<rparr>)"

text \<open>
  \<^verbatim>\<open>random.choice(seq)\<close> is
  \<^verbatim>\<open>if not len(seq): raise IndexError(...); return seq[self._randbelow(len(seq))]\<close>.
  On a dict the subscript by an integer finds no key; a value without a length is a
  TypeError.
\<close>

definition random_choice :: "json \<Rightarrow> json io" where
  "random_choice seq =
     (case seq of
        JArr xs \<Rightarrow>
          if xs = [] then io_raise IndexError
          else io_bind (randbelow (length xs)) (\<lambda>i. io_return (xs ! i))
      | JStr s \<Rightarrow>
          if s = [] then io_raise IndexError
          else io_bind (randbelow (length s)) (\<lambda>i. io_return (JStr [s ! i]))
      | JObj kvs \<Rightarrow>
          if kvs = [] then io_raise IndexError
          else io_bind (randbelow (length kvs)) (\<lambda>i. io_raise (KeyError (JInt (int i))))
      | _ \<Rightarrow> io_raise TypeError)"

text \<open>\<^verbatim>\<open>v[k]\<close> for a string key \<open>k\<close>.\<close>

definition subscript :: "json \<Rightarrow> string \<Rightarrow> error + json" where
  "subscript v k =
     (case v of
        JObj kvs \<Rightarrow> (case map_of kvs k of None \<Rightarrow> Inl (KeyError (JStr k)) | Some x \<Rightarrow> Inr x)
      | _ \<Rightarrow> Inl TypeError)"

text \<open>
  \<^verbatim>\<open>
  def draw_card(cards: list):
      card = random.choice(cards)
      orientation = random.choice(["upright", "reversed"])
      keywords = card["upright_keywords"] if orientation == "upright" else card["reversed_keywords"]
      return card["name"], orientation, keywords
  \<close>
\<close>

definition draw_card :: "json \<Rightarrow> (json \<times> json \<times> json) io" where
  "draw_card cards =
     io_bind (random_choice cards) (\<lambda>card.
     io_bind (random_choice (JArr [JStr ''upright'', JStr ''reversed''])) (\<lambda>orientation.
     io_bind (io_lift (if orientation = JStr ''upright''
                       then subscript card ''upright_keywords''
                       else subscript card ''reversed_keywords'')) (\<lambda>keywords.
     io_bind (io_lift (subscript card ''name'')) (\<lambda>name.
     io_return (name, orientation, keywords)))))"


section \<open>Text of Python values\<close>

definition dq :: char where "dq = CHR 0x22"
definition bs :: char where "bs = CHR 0x5C"
definition sq :: char where "sq = CHR 0x27"
definition lf :: char where "lf = CHR 0x0A"
definition cr :: char where "cr = CHR 0x0D"
definition tab :: char where "tab = CHR 0x09"

definition digit_char :: "nat \<Rightarrow> char" where
  "digit_char d = char_of (48 + d)"

fun dec :: "nat \<Rightarrow> string" where
  "dec n = (if n < 10 then [digit_char n] else dec (n div 10) @ [digit_char (n mod 10)])"

declare dec.simps [simp del]

definition str_int :: "int \<Rightarrow> string" where
  "str_int i = (if i < 0 then CHR ''-'' # dec (nat (- i)) else dec (nat i))"

definition hex_char :: "nat \<Rightarrow> char" where
  "hex_char d = (if d < 10 then char_of (48 + d) else char_of (87 + d))"

fun join :: "string \<Rightarrow> string list \<Rightarrow> string" where
  "join sep [] = []"
| "join sep [x] = x"
| "join sep (x # y # ys) = x @ sep @ join sep (y # ys)"

definition repr_char :: "char \<Rightarrow> char \<Rightarrow> string" where
  "repr_char q c =
     (if c = bs then [bs, bs]
      else if c = q then [bs, q]
      else if c = lf then [bs, CHR ''n'']
      else if c = cr then [bs, CHR ''r'']
      else if c = tab then [bs, CHR ''t'']
      else if (of_char c :: nat) < 32 \<or> (of_char c :: nat) = 127
        then [bs, CHR ''x'', hex_char (of_char c div 16), hex_char (of_char c mod 16)]
      else [c])"

definition repr_str :: "string \<Rightarrow> string" where
  "repr_str s =
     (let q = (if sq \<in> set s \<and> dq \<notin> set s then dq else sq)
      in q # concat (map (repr_char q) s) @ [q])"

fun py_repr :: "json \<Rightarrow> string" where
  "py_repr JNull = ''None''"
| "py_repr (JBool b) = (if b then ''True'' else ''False'')"
| "py_repr (JInt i) = str_int i"
| "py_repr (JFloat lit) = lit"
| "py_repr (JStr s) = repr_str s"
| "py_repr (JArr xs) = ''['' @ join '', '' (map py_repr xs) @ '']''"
| "py_repr (JObj kvs) =
     ''{'' @ join '', '' (map (\<lambda>(k, v). repr_str k @ '': '' @ py_repr v) kvs) @ ''}''"

definition py_str :: "json \<Rightarrow> string" where
  "py_str v = (case v of JStr s \<Rightarrow> s | _ \<Rightarrow> py_repr v)"

definition lookup_field :: "string \<Rightarrow> (string \<times> json) list \<Rightarrow> error + string" where
  "lookup_field name vars =
     (if \<exists>x \<in> set name. x \<in> set ''!:.[{'' then Inl NotModelled
      else if \<forall>x \<in> set name. x \<in> set ''0123456789'' then Inl IndexError
      else (case map_of vars name of
              None \<Rightarrow> Inl (KeyError (JStr name))
            | Some v \<Rightarrow> Inr (py_str v)))"

definition prepend :: "string \<Rightarrow> error + string \<Rightarrow> error + string" where
  "prepend s r = (case r of Inl e \<Rightarrow> Inl e | Inr t \<Rightarrow> Inr (s @ t))"

fun format :: "string \<Rightarrow> (string \<times> json) list \<Rightarrow> error + string"
  and format_field :: "string \<Rightarrow> string \<Rightarrow> (string \<times> json) list \<Rightarrow> error + string" where
  "format [] vars = Inr []"
| "format [c] vars = (if c = CHR ''{'' \<or> c = CHR ''}'' then Inl ValueError else Inr [c])"
| "format (c # d # ds) vars =
     (if c = CHR ''{'' then
        (if d = CHR ''{'' then prepend ''{'' (format ds vars) else format_field [] (d # ds) vars)
      else if c = CHR ''}'' then
        (if d = CHR ''}'' then prepend ''}'' (format ds vars) else Inl ValueError)
      else prepend [c] (format (d # ds) vars))"
| "format_field acc [] vars = Inl ValueError"
| "format_field acc (c # cs) vars =
     (if c = CHR ''}'' then
        (case lookup_field (rev acc) vars of
           Inl e \<Rightarrow> Inl e
         | Inr s \<Rightarrow> prepend s (format cs vars))
      else format_field (c # acc) cs vars)"

section \<open>JSON text\<close>

text \<open>
  \<^verbatim>\<open>json.dumps(obj, ensure_ascii=False, indent=2)\<close>, as the encoder of the standard library
  writes it: a string is quoted with \<open>"\<close>, \<open>\\<close> and the control characters below
  0x20 escaped and every other character kept; a non-empty list or dict puts each item
  on a line of its own, two spaces deeper than its parent, items separated by a comma
  and a key from its value by a colon and a space.
\<close>

definition escape_char :: "char \<Rightarrow> string" where
  "escape_char c =
     (if c = dq then [bs, dq]
      else if c = bs then [bs, bs]
      else if c = lf then [bs, CHR ''n'']
      else if c = cr then [bs, CHR ''r'']
      else if c = tab then [bs, CHR ''t'']
      else if c = CHR 0x08 then [bs, CHR ''b'']
      else if c = CHR 0x0C then [bs, CHR ''f'']
      else if (of_char c :: nat) < 32
        then [bs, CHR ''u'', CHR ''0'', CHR ''0'',
              hex_char (of_char c div 16), hex_char (of_char c mod 16)]
      else [c])"

definition encode_str :: "string \<Rightarrow> string" where
  "encode_str s = dq # concat (map escape_char s) @ [dq]"

definition newline_indent :: "nat \<Rightarrow> string" where
  "newline_indent level = lf # replicate (2 * level) CHR '' ''"

fun dumps :: "nat \<Rightarrow> json \<Rightarrow> string" where
  "dumps level JNull = ''null''"
| "dumps level (JBool b) = (if b then ''true'' else ''false'')"
| "dumps level (JInt i) = str_int i"
| "dumps level (JFloat lit) = lit"
| "dumps level (JStr s) = encode_str s"
| "dumps level (JArr xs) =
     (if xs = [] then ''[]''
      else ''['' @ newline_indent (Suc level)
           @ join ('','' @ newline_indent (Suc level)) (map (dumps (Suc level)) xs)
           @ newline_indent level @ '']'')"
| "dumps level (JObj kvs) =
     (if kvs = [] then ''{}''
      else ''{'' @ newline_indent (Suc level)
           @ join ('','' @ newline_indent (Suc level))
               (map (\<lambda>(k, v). encode_str k @ '': '' @ dumps (Suc level) v) kvs)
           @ newline_indent level @ ''}'')"

definition json_dumps :: "json \<Rightarrow> string" where
  "json_dumps v = dumps 0 v"

text \<open>
  \<^verbatim>\<open>json.loads\<close>. \<open>None\<close> is the decoder's JSONDecodeError. The recursion of the decoder
  is bounded by a counter that \<open>json_loads\<close> starts above the length of the text, and
  every call consumes a character.
\<close>

definition is_ws :: "char \<Rightarrow> bool" where
  "is_ws c = (c = CHR '' '' \<or> c = tab \<or> c = lf \<or> c = cr)"

definition skip_ws :: "string \<Rightarrow> string" where
  "skip_ws s = dropWhile is_ws s"

definition is_digit :: "char \<Rightarrow> bool" where
  "is_digit c = (48 \<le> (of_char c :: nat) \<and> (of_char c :: nat) \<le> 57)"

definition hex_val :: "char \<Rightarrow> nat option" where
  "hex_val c =
     (let n = (of_char c :: nat) in
      if 48 \<le> n \<and> n \<le> 57 then Some (n - 48)
      else if 97 \<le> n \<and> n \<le> 102 then Some (n - 87)
      else if 65 \<le> n \<and> n \<le> 70 then Some (n - 55)
      else None)"

definition hex4 :: "string \<Rightarrow> (nat \<times> string) option" where
  "hex4 s =
     (case s of
        a # b # c # d # r \<Rightarrow>
          (case (hex_val a, hex_val b, hex_val c, hex_val d) of
             (Some x, Some y, Some z, Some u) \<Rightarrow> Some (((x * 16 + y) * 16 + z) * 16 + u, r)
           | _ \<Rightarrow> None)
      | _ \<Rightarrow> None)"

text \<open>The UTF-8 bytes of a code point; a lone surrogate is written in the three-byte form.\<close>

definition utf8 :: "nat \<Rightarrow> string" where
  "utf8 u =
     (if u < 0x80 then [char_of u]
      else if u < 0x800 then [char_of (0xC0 + u div 64), char_of (0x80 + u mod 64)]
      else if u < 0x10000 then
        [char_of (0xE0 + u div 4096), char_of (0x80 + u div 64 mod 64), char_of (0x80 + u mod 64)]
      else [char_of (0xF0 + u div 262144), char_of (0x80 + u div 4096 mod 64),
            char_of (0x80 + u div 64 mod 64), char_of (0x80 + u mod 64)])"

text \<open>One character or escape sequence inside a string literal.\<close>

definition scan_item :: "string \<Rightarrow> (string \<times> string) option" where
  "scan_item s =
     (case s of
        [] \<Rightarrow> None
      | c # cs \<Rightarrow>
          if c = bs then
            (case cs of
               [] \<Rightarrow> None
             | e # es \<Rightarrow>
                 if e = dq then Some ([dq], es)
                 else if e = bs then Some ([bs], es)
                 else if e = CHR ''/'' then Some (''/'', es)
                 else if e = CHR ''b'' then Some ([CHR 0x08], es)
                 else if e = CHR ''f'' then Some ([CHR 0x0C], es)
                 else if e = CHR ''n'' then Some ([lf], es)
                 else if e = CHR ''r'' then Some ([cr], es)
                 else if e = CHR ''t'' then Some ([tab], es)
                 else if e = CHR ''u'' then
                   (case hex4 es of
                      None \<Rightarrow> None
                    | Some (u, r) \<Rightarrow>
                        if 0xD800 \<le> u \<and> u \<le> 0xDBFF \<and> take 2 r = [bs, CHR ''u''] then
                          (case hex4 (drop 2 r) of
                             None \<Rightarrow> None
                           | Some (u2, r2) \<Rightarrow>
                               if 0xDC00 \<le> u2 \<and> u2 \<le> 0xDFFF
                               then Some (utf8 (0x10000 + (u - 0xD800) * 1024 + (u2 - 0xDC00)), r2)
                               else Some (utf8 u, r))
                        else Some (utf8 u, r))
                 else None)
          else if (of_char c :: nat) < 32 then None
          else Some ([c], cs))"

fun scan_items :: "nat \<Rightarrow> string \<Rightarrow> (string \<times> string) option" where
  "scan_items 0 s = None"
| "scan_items (Suc n) s =
     (case s of
        [] \<Rightarrow> None
      | c # cs \<Rightarrow>
          if c = dq then Some ([], cs)
          else (case scan_item s of
                  None \<Rightarrow> None
                | Some (t, r) \<Rightarrow>
                    (case scan_items n r of
                       None \<Rightarrow> None
                     | Some (ts, r') \<Rightarrow> Some (t @ ts, r'))))"

definition scan_string :: "string \<Rightarrow> (string \<times> string) option" where
  "scan_string s = scan_items (length s) s"

definition digits_val :: "string \<Rightarrow> nat" where
  "digits_val ds = foldl (\<lambda>a d. 10 * a + ((of_char d :: nat) - 48)) 0 ds"

definition starts :: "char \<Rightarrow> string \<Rightarrow> bool" where
  "starts c s = (case s of [] \<Rightarrow> False | x # _ \<Rightarrow> x = c)"

definition starts_digit :: "string \<Rightarrow> bool" where
  "starts_digit s = (case s of [] \<Rightarrow> False | x # _ \<Rightarrow> is_digit x)"

text \<open>
  The number pattern of the decoder,
  \<^verbatim>\<open>(-?(?:0|[1-9][0-9]*))(\.[0-9]+)?([eE][-+]?[0-9]+)?\<close>: an int when neither the
  fraction nor the exponent is there, a float otherwise.
\<close>

definition scan_number :: "string \<Rightarrow> (json \<times> string) option" where
  "scan_number s =
     (let neg = starts CHR ''-'' s;
          s1 = (if neg then tl s else s)
      in if \<not> starts_digit s1 then None
         else
           let ip = (if starts CHR ''0'' s1 then ''0'' else takeWhile is_digit s1);
               s2 = drop (length ip) s1;
               fp = (if starts CHR ''.'' s2 \<and> starts_digit (tl s2)
                     then CHR ''.'' # takeWhile is_digit (tl s2) else []);
               s3 = drop (length fp) s2;
               sg = (if starts CHR ''+'' (tl s3) \<or> starts CHR ''-'' (tl s3) then take 1 (tl s3) else []);
               ep = (if (starts CHR ''e'' s3 \<or> starts CHR ''E'' s3)
                        \<and> starts_digit (drop (length sg) (tl s3))
                     then take 1 s3 @ sg @ takeWhile is_digit (drop (length sg) (tl s3)) else []);
               s4 = drop (length ep) s3
           in if fp = [] \<and> ep = []
              then Some (JInt (if neg then - int (digits_val ip) else int (digits_val ip)), s4)
              else Some (JFloat ((if neg then ''-'' else []) @ ip @ fp @ ep), s4))"

text \<open>\<^verbatim>\<open>d[k] = v\<close> on a dict: a key already there keeps its place.\<close>

fun dict_set :: "string \<Rightarrow> json \<Rightarrow> (string \<times> json) list \<Rightarrow> (string \<times> json) list" where
  "dict_set k v [] = [(k, v)]"
| "dict_set k v ((k', v') # d) = (if k = k' then (k, v) # d else (k', v') # dict_set k v d)"

definition dict_of :: "(string \<times> json) list \<Rightarrow> (string \<times> json) list" where
  "dict_of kvs = foldl (\<lambda>d (k, v). dict_set k v d) [] kvs"

fun parse_value :: "nat \<Rightarrow> string \<Rightarrow> (json \<times> string) option"
  and parse_elems :: "nat \<Rightarrow> string \<Rightarrow> (json list \<times> string) option"
  and parse_members :: "nat \<Rightarrow> string \<Rightarrow> ((string \<times> json) list \<times> string) option" where
  "parse_value 0 s = None"
| "parse_value (Suc n) s =
     (if starts dq s then
        (case scan_string (tl s) of None \<Rightarrow> None | Some (t, r) \<Rightarrow> Some (JStr t, r))
      else if starts CHR ''{'' s then
        (if starts CHR ''}'' (skip_ws (tl s)) then Some (JObj [], tl (skip_ws (tl s)))
         else (case parse_members n (skip_ws (tl s)) of
                 None \<Rightarrow> None
               | Some (kvs, r) \<Rightarrow> Some (JObj (dict_of kvs), r)))
      else if starts CHR ''['' s then
        (if starts CHR '']'' (skip_ws (tl s)) then Some (JArr [], tl (skip_ws (tl s)))
         else (case parse_elems n (skip_ws (tl s)) of
                 None \<Rightarrow> None
               | Some (vs, r) \<Rightarrow> Some (JArr vs, r)))
      else if take 4 s = ''null'' then Some (JNull, drop 4 s)
      else if take 4 s = ''true'' then Some (JBool True, drop 4 s)
      else if take 5 s = ''false'' then Some (JBool False, drop 5 s)
      else (case scan_number s of
              Some x \<Rightarrow> Some x
            | None \<Rightarrow>
                if take 3 s = ''NaN'' then Some (JFloat ''NaN'', drop 3 s)
                else if take 8 s = ''Infinity'' then Some (JFloat ''Infinity'', drop 8 s)
                else if take 9 s = ''-Infinity'' then Some (JFloat ''-Infinity'', drop 9 s)
                else None))"
| "parse_elems 0 s = None"
| "parse_elems (Suc n) s =
     (case parse_value n s of
        None \<Rightarrow> None
      | Some (v, r) \<Rightarrow>
          if starts CHR '']'' (skip_ws r) then Some ([v], tl (skip_ws r))
          else if starts CHR '','' (skip_ws r) then
            (case parse_elems n (skip_ws (tl (skip_ws r))) of
               None \<Rightarrow> None
             | Some (vs, r') \<Rightarrow> Some (v # vs, r'))
          else None)"
| "parse_members 0 s = None"
| "parse_members (Suc n) s =
     (if \<not> starts dq s then None
      else (case scan_string (tl s) of
              None \<Rightarrow> None
            | Some (k, r) \<Rightarrow>
                if \<not> starts CHR '':'' (skip_ws r) then None
                else (case parse_value n (skip_ws (tl (skip_ws r))) of
                        None \<Rightarrow> None
                      | Some (v, r') \<Rightarrow>
                          if starts CHR ''}'' (skip_ws r') then Some ([(k, v)], tl (skip_ws r'))
                          else if starts CHR '','' (skip_ws r') then
                            (case parse_members n (skip_ws (tl (skip_ws r'))) of
                               None \<Rightarrow> None
                             | Some (kvs, r'') \<Rightarrow> Some ((k, v) # kvs, r''))
                          else None)))"

definition json_loads :: "string \<Rightarrow> error + json" where
  "json_loads s =
     (case parse_value (Suc (length s)) (skip_ws s) of
        None \<Rightarrow> Inl JSONDecodeError
      | Some (v, r) \<Rightarrow> if skip_ws r = [] then Inr v else Inl JSONDecodeError)"

section \<open>The program\<close>

text \<open>
  \<^verbatim>\<open>path.read_text(encoding="utf-8")\<close>, \<^verbatim>\<open>path.write_text(data, encoding="utf-8")\<close>
  and \<^verbatim>\<open>input(prompt)\<close>. Paths are relative to the directory of \<^verbatim>\<open>main.py\<close>. What
  \<^verbatim>\<open>print\<close> writes on the console is not recorded.
\<close>

definition read_text :: "string \<Rightarrow> string io" where
  "read_text path w =
     (case files w path of
        None \<Rightarrow> (Inl FileNotFoundError, w\<lparr>trace := trace w @ [ReadFile path]\<rparr>)
      | Some t \<Rightarrow> (Inr t, w\<lparr>trace := trace w @ [ReadFile path]\<rparr>))"

definition write_text :: "string \<Rightarrow> json \<Rightarrow> unit io" where
  "write_text path data w =
     (case data of
        JStr t \<Rightarrow> (Inr (), w\<lparr>files := (files w)(path \<mapsto> t),
                                trace := trace w @ [WriteFile path t]\<rparr>)
      | _ \<Rightarrow> (Inl TypeError, w))"

definition input :: "string io" where
  "input w =
     (case stdin w of
        [] \<Rightarrow> (Inl EOFError, w\<lparr>trace := trace w @ [Input]\<rparr>)
      | l # ls \<Rightarrow> (Inr l, w\<lparr>stdin := ls, trace := trace w @ [Input]\<rparr>))"

text \<open>\<^verbatim>\<open>str.strip()\<close>, on the ASCII whitespace characters.\<close>

definition is_space :: "char \<Rightarrow> bool" where
  "is_space c =
     (let n = (of_char c :: nat) in (9 \<le> n \<and> n \<le> 13) \<or> (28 \<le> n \<and> n \<le> 32))"

definition strip :: "string \<Rightarrow> string" where
  "strip s = rev (dropWhile is_space (rev (dropWhile is_space s)))"

text \<open>\<^verbatim>\<open>datetime.datetime.now().strftime("%Y%m%d_%H%M%S")\<close>.\<close>

definition now_strftime :: "string io" where
  "now_strftime w = (Inr (clock w), w)"

text \<open>
  The requests the service has received, in order: the user message and whether a JSON
  object was demanded. The model name, the temperature and the system message are the
  same in every request.
\<close>

fun requests :: "event list \<Rightarrow> (string \<times> bool) list" where
  "requests [] = []"
| "requests (LlmCall vars filled json_mode # es) = (filled, json_mode) # requests es"
| "requests (_ # es) = requests es"

text \<open>
  \<^verbatim>\<open>client.chat.completions.create(...)\<close> followed by
  \<^verbatim>\<open>response.choices[0].message.content\<close>: the request is recorded, with the variables
  it was filled from, and the service answers with a text or fails.
\<close>

definition chat_completion :: "(string \<times> json) list \<Rightarrow> string \<Rightarrow> bool \<Rightarrow> string io" where
  "chat_completion variables filled json_mode w =
     (let tr = trace w @ [LlmCall variables filled json_mode]
      in (service w (requests tr), w\<lparr>trace := tr\<rparr>))"

text \<open>
  \<^verbatim>\<open>
  def call_llm(prompt: str, variables: dict, json_mode: bool):
      filled = prompt.format(**variables)
      response = client.chat.completions.create(...)
      content = response.choices[0].message.content
      if json_mode:
          return json.loads(content)
      return content
  \<close>
\<close>

definition call_llm :: "string \<Rightarrow> (string \<times> json) list \<Rightarrow> bool \<Rightarrow> json io" where
  "call_llm prompt variables json_mode =
     io_bind (io_lift (format prompt variables)) (\<lambda>filled.
     io_bind (chat_completion variables filled json_mode) (\<lambda>content.
     if json_mode then io_lift (json_loads content) else io_return (JStr content)))"

text \<open>\<^verbatim>\<open>d.get(k, default)\<close>; only a dict has the method.\<close>

definition dict_get :: "json \<Rightarrow> string \<Rightarrow> json \<Rightarrow> error + json" where
  "dict_get d k dflt =
     (case d of
        JObj kvs \<Rightarrow> (case map_of kvs k of None \<Rightarrow> Inr dflt | Some x \<Rightarrow> Inr x)
      | _ \<Rightarrow> Inl AttributeError)"

text \<open>The session state: the dict \<open>state\<close> of \<^verbatim>\<open>main\<close>, with its five keys in order.\<close>

record state =
  topic :: json
  question :: json
  emotion :: json
  constraints :: json
  draw_history :: "json list"

definition state_json :: "state \<Rightarrow> json" where
  "state_json st =
     JObj [(''topic'', topic st), (''question'', question st), (''emotion'', emotion st),
           (''constraints'', constraints st), (''draw_history'', JArr (draw_history st))]"

text \<open>
  \<^verbatim>\<open>"<sep>".join(keywords)\<close> in the \<^verbatim>\<open>print\<close> of each step raises TypeError unless
  \<open>keywords\<close> is an iterable of strings: a list of strings, a string, or a dict
  (whose keys are strings).
\<close>

definition join_keywords :: "json \<Rightarrow> error + unit" where
  "join_keywords keywords =
     (case keywords of
        JArr xs \<Rightarrow> if \<forall>x \<in> set xs. (case x of JStr _ \<Rightarrow> True | _ \<Rightarrow> False)
                   then Inr () else Inl TypeError
      | JStr _ \<Rightarrow> Inr ()
      | JObj _ \<Rightarrow> Inr ()
      | _ \<Rightarrow> Inl TypeError)"

text \<open>The dict \<open>record\<close> built at lines 129 to 136.\<close>

definition draw_record :: "int \<Rightarrow> string \<Rightarrow> json \<Rightarrow> json \<Rightarrow> json \<Rightarrow> json \<Rightarrow> json" where
  "draw_record step pos card_name orientation keywords interp =
     JObj [(''step'', JInt step), (''position'', JStr pos), (''card'', card_name),
           (''orientation'', orientation), (''keywords'', keywords),
           (''interpretation'', interp)]"

text \<open>The body of the loop \<^verbatim>\<open>for step, pos in enumerate(positions, start=1)\<close>.\<close>

definition draw_step :: "json \<Rightarrow> string \<Rightarrow> string \<Rightarrow> state \<Rightarrow> int \<times> string \<Rightarrow> state io" where
  "draw_step cards first_prompt next_prompt st sp =
     (case sp of (step, pos) \<Rightarrow>
      io_bind (draw_card cards) (\<lambda>(card_name, orientation, keywords).
      io_bind
        (if step = 1 then
           call_llm first_prompt
             [(''topic'', topic st), (''question'', question st), (''emotion'', emotion st),
              (''constraints'', constraints st), (''position'', JStr pos),
              (''card_name'', card_name), (''orientation'', orientation),
              (''keywords'', keywords)] True
         else
           call_llm next_prompt
             [(''step'', JInt step), (''topic'', topic st), (''question'', question st),
              (''emotion'', emotion st), (''constraints'', constraints st),
              (''history_json'', JStr (json_dumps (JArr (draw_history st)))),
              (''position'', JStr pos), (''card_name'', card_name),
              (''orientation'', orientation), (''keywords'', keywords)] True) (\<lambda>interp.
      let st' = st\<lparr>draw_history :=
                   draw_history st
                   @ [draw_record step pos card_name orientation keywords interp]\<rparr>
      in io_bind (io_lift (join_keywords keywords)) (\<lambda>_. io_return st'))))"

fun enumerate_from :: "int \<Rightarrow> 'a list \<Rightarrow> (int \<times> 'a) list" where
  "enumerate_from n [] = []"
| "enumerate_from n (x # xs) = (n, x) # enumerate_from (n + 1) xs"

fun for_each :: "(state \<Rightarrow> 'a \<Rightarrow> state io) \<Rightarrow> 'a list \<Rightarrow> state \<Rightarrow> state io" where
  "for_each body [] st = io_return st"
| "for_each body (x # xs) st = io_bind (body st x) (for_each body xs)"

definition positions :: "string list" where
  "positions = [''past'', ''present'', ''future'']"

text \<open>
  \<^verbatim>\<open>main()\<close>, lines 56 to 168. Python's \<^verbatim>\<open>main\<close> returns nothing; the model returns the
  final \<open>state\<close> and \<open>review_md\<close>, the two values it has just written to disk, so
  that statements can name them.
\<close>

definition main :: "(state \<times> json) io" where
  "main =
     io_bind (read_text ''cards.json'') (\<lambda>cards_text.
     io_bind (io_lift (json_loads cards_text)) (\<lambda>cards.
     io_bind (read_text ''prompts/intent_parser.txt'') (\<lambda>intent_prompt.
     io_bind (read_text ''prompts/interpret_first.txt'') (\<lambda>first_prompt.
     io_bind (read_text ''prompts/interpret_next.txt'') (\<lambda>next_prompt.
     io_bind (read_text ''prompts/final_review.txt'') (\<lambda>review_prompt.
     io_bind input (\<lambda>line1.
     io_bind input (\<lambda>line2.
     let topic_input = strip line1; player_text = strip line2 in
     io_bind (call_llm intent_prompt
                [(''player_text'',
                  JStr (''[topic_hint='' @ topic_input @ ''] '' @ player_text))] True) (\<lambda>intent.
     io_bind (io_lift (dict_get intent ''topic'' (JStr topic_input))) (\<lambda>topic0.
     io_bind (io_lift (subscript intent ''question'')) (\<lambda>question0.
     io_bind (io_lift (dict_get intent ''emotion'' (JStr ''other''))) (\<lambda>emotion0.
     io_bind (io_lift (dict_get intent ''constraints'' (JArr []))) (\<lambda>constraints0.
     io_bind (for_each (draw_step cards first_prompt next_prompt)
                (enumerate_from 1 positions)
                \<lparr>topic = topic0, question = question0, emotion = emotion0,
                 constraints = constraints0, draw_history = []\<rparr>) (\<lambda>st.
     io_bind (call_llm review_prompt
                [(''topic'', topic st), (''question'', question st),
                 (''history_json'', JStr (json_dumps (JArr (draw_history st))))] False) (\<lambda>review_md.
     io_bind now_strftime (\<lambda>ts.
     io_bind (write_text (''runs/run_'' @ ts @ ''.json'') (JStr (json_dumps (state_json st)))) (\<lambda>_.
     io_bind (write_text (''runs/run_'' @ ts @ ''.md'') review_md) (\<lambda>_.
     io_return (st, review_md)))))))))))))))))))"

text \<open>
  The module itself, lines 8 to 25 and 170: the key is read from the environment with
  the empty string as default, an empty key raises ValueError, then the client is made,
  the \<^verbatim>\<open>runs\<close> directory is created and \<^verbatim>\<open>main()\<close> runs.
\<close>

definition getenv :: "string \<Rightarrow> string \<Rightarrow> string io" where
  "getenv name dflt w = (Inr (case environ w name of None \<Rightarrow> dflt | Some v \<Rightarrow> v), w)"

definition program :: "(state \<times> json) io" where
  "program =
     io_bind (getenv ''OPENAI_API_KEY'' []) (\<lambda>OPENAI_API_KEY.
     if OPENAI_API_KEY = [] then io_raise ValueError
     else io_bind (emit (MkDir ''runs'')) (\<lambda>_. main))"

section \<open>Observing a run\<close>

text \<open>
  The events a computation adds to the trace of the world it starts in.
\<close>

definition new_events :: "'a io \<Rightarrow> world \<Rightarrow> event list" where
  "new_events m w = drop (length (trace w)) (trace (snd (m w)))"

text \<open>
  \<open>adds Q m R\<close>: whatever \<open>m\<close> does, and whether it returns or raises, every event
  it adds satisfies \<open>Q\<close>, and a value it returns satisfies \<open>R\<close>.
\<close>

definition adds :: "(event \<Rightarrow> bool) \<Rightarrow> 'a io \<Rightarrow> ('a \<Rightarrow> bool) \<Rightarrow> bool" where
  "adds Q m R \<longleftrightarrow>
     (\<forall>w r w'. m w = (r, w') \<longrightarrow>
        (\<exists>evs. trace w' = trace w @ evs \<and> list_all Q evs) \<and> (\<forall>x. r = Inr x \<longrightarrow> R x))"

text \<open>
  \<open>records_upto n recs\<close>: \<open>recs\<close> are the Draw records of steps 1 to \<open>n\<close>, in order,
  each built by \<open>draw_record\<close> and so holding its interpretation.
  \<open>call_in_order e\<close>: if \<open>e\<close> is a request whose variables hold \<open>step\<close> = \<open>n\<close>,
  its \<open>history_json\<close> is the serialisation of the records of steps 1 to \<open>n - 1\<close>.
\<close>

definition records_upto :: "int \<Rightarrow> json list \<Rightarrow> bool" where
  "records_upto n recs \<longleftrightarrow>
     int (length recs) = n
     \<and> (\<forall>k < length recs. \<exists>c o' kw i.
           recs ! k = draw_record (int k + 1) (positions ! k) c o' kw i)"

definition call_in_order :: "event \<Rightarrow> bool" where
  "call_in_order e \<longleftrightarrow>
     (\<forall>vars filled jm n.
        e = LlmCall vars filled jm \<longrightarrow> map_of vars ''step'' = Some (JInt n) \<longrightarrow>
        (\<exists>recs. map_of vars ''history_json'' = Some (JStr (json_dumps (JArr recs)))
           \<and> records_upto (n - 1) recs))"

section \<open>A concrete session\<close>

text \<open>
  A world in which a session runs to its end: a deck of two cards, four short
  templates, a user who types a topic and a question, and a service that answers the
  first request with an object holding only \<open>question\<close>, the fifth with the review and
  the others with a small interpretation.
\<close>

definition demo_cards_text :: string where
  \<open>demo_cards_text =
     ''[{"name": "The Fool", "upright_keywords": ["beginnings", "trust"], "reversed_keywords": ["recklessness"]},
        {"name": "The Tower", "upright_keywords": ["upheaval"], "reversed_keywords": ["fear"]}]''\<close>

definition demo_deck :: "json list" where
  "demo_deck =
     [JObj [(''name'', JStr ''The Fool''),
            (''upright_keywords'', JArr [JStr ''beginnings'', JStr ''trust'']),
            (''reversed_keywords'', JArr [JStr ''recklessness''])],
      JObj [(''name'', JStr ''The Tower''),
            (''upright_keywords'', JArr [JStr ''upheaval'']),
            (''reversed_keywords'', JArr [JStr ''fear''])]]"

definition demo_files :: "string \<Rightarrow> string option" where
  "demo_files =
     map_of [(''cards.json'', demo_cards_text),
             (''prompts/intent_parser.txt'', ''Parse this: {player_text}''),
             (''prompts/interpret_first.txt'',
              ''{position}: {card_name} ({orientation}) {keywords} about {question}''),
             (''prompts/interpret_next.txt'',
              ''Step {step}, {position}: {card_name} ({orientation}), so far {history_json}''),
             (''prompts/final_review.txt'', ''Review {topic} / {question}: {history_json}'')]"

definition demo_service :: "(string \<times> bool) list \<Rightarrow> error + string" where
  \<open>demo_service reqs =
     (if length reqs = 1 then Inr ''{"question": "Will we reconcile?"}''
      else if length reqs = 5 then Inr ''A calm review.''
      else Inr ''{"meaning": "change"}'')\<close>

definition demo_world :: world where
  "demo_world =
     \<lparr>environ = map_of [(''OPENAI_API_KEY'', ''sk-test'')],
      files = demo_files,
      stdin = ['' love '', ''Will we reconcile?''],
      rng = (\<lambda>n. n + n div 2),
      service = demo_service,
      clock = ''20240101_120000'',
      trace = []\<rparr>"

definition demo_state :: state where
  "demo_state =
     \<lparr>topic = JStr ''love'', question = JStr ''Will we reconcile?'',
      emotion = JStr ''other'', constraints = JArr [],
      draw_history =
        [draw_record 1 ''past'' (JStr ''The Fool'') (JStr ''reversed'')
           (JArr [JStr ''recklessness'']) (JObj [(''meaning'', JStr ''change'')]),
         draw_record 2 ''present'' (JStr ''The Tower'') (JStr ''upright'')
           (JArr [JStr ''upheaval'']) (JObj [(''meaning'', JStr ''change'')]),
         draw_record 3 ''future'' (JStr ''The Fool'') (JStr ''reversed'')
           (JArr [JStr ''recklessness'']) (JObj [(''meaning'', JStr ''change'')])]\<rparr>"



text \<open>The same world with a service whose answers never hold \<open>question\<close>.\<close>

definition no_question_world :: world where
  \<open>no_question_world = demo_world\<lparr>service := (\<lambda>_. Inr ''{"topic": "love"}'')\<rparr>\<close>

section \<open>Helper lemmas\<close>

lemmas io_defs = io_return_def io_raise_def io_bind_def io_lift_def emit_def

lemma nth_two: "[a, b] ! (n mod Suc (Suc 0)) = a \<or> [a, b] ! (n mod Suc (Suc 0)) = b"
proof -
  have "n mod Suc (Suc 0) = 0 \<or> n mod Suc (Suc 0) = Suc 0" by arith
  then show ?thesis by auto
qed

lemma random_choice_two:
  "random_choice (JArr [a, b]) w = (r, w') \<Longrightarrow> r = Inr a \<or> r = Inr b"
  using nth_two [of a b "rng w 0"]
  by (auto simp: random_choice_def randbelow_def io_defs)

lemma prepend_Inr [simp]: "prepend s (Inr t) = Inr (s @ t)"
  by (simp add: prepend_def)

lemma prepend_Inl [simp]: "prepend s (Inl e) = Inl e"
  by (simp add: prepend_def)


lemma prepend_Nil [simp]: "prepend [] r = r"
  by (cases r) simp_all





subsection \<open>Successful runs, step by step\<close>

lemma io_bind_InrD:
  "io_bind m f w = (Inr y, w') \<Longrightarrow> \<exists>x w1. m w = (Inr x, w1) \<and> f x w1 = (Inr y, w')"
  by (auto simp: io_bind_def split: prod.splits sum.splits)


lemma io_lift_InrD: "io_lift r w = (Inr y, w') \<Longrightarrow> r = Inr y \<and> w' = w"
  by (simp add: io_lift_def)

lemma io_return_InrD: "io_return x w = (Inr y, w') \<Longrightarrow> y = x \<and> w' = w"
  by (auto simp add: io_return_def)

lemma requests_append [simp]: "requests (xs @ ys) = requests xs @ requests ys"
  by (induction xs rule: requests.induct) simp_all

lemma read_text_InrD:
  "read_text path w = (Inr t, w') \<Longrightarrow>
     files w path = Some t \<and> w' = w\<lparr>trace := trace w @ [ReadFile path]\<rparr>"
  by (auto simp: read_text_def split: option.splits)

lemma input_InrD:
  "input w = (Inr l, w') \<Longrightarrow>
     (\<exists>ls. stdin w = l # ls \<and> w' = w\<lparr>stdin := ls, trace := trace w @ [Input]\<rparr>)"
  by (auto simp: input_def split: list.splits)


lemma chat_completion_eq:
  "chat_completion vars filled jm w =
     (service w (requests (trace w) @ [(filled, jm)]),
      w\<lparr>trace := trace w @ [LlmCall vars filled jm]\<rparr>)"
  by (simp add: chat_completion_def Let_def)

lemma call_llm_InrD:
  assumes "call_llm prompt vars jm w = (Inr v, w')"
  shows "\<exists>filled content.
       format prompt vars = Inr filled
       \<and> service w (requests (trace w) @ [(filled, jm)]) = Inr content
       \<and> (if jm then json_loads content = Inr v else v = JStr content)
       \<and> w' = w\<lparr>trace := trace w @ [LlmCall vars filled jm]\<rparr>"
proof -
  from assms obtain filled w1 where
    f: "io_lift (format prompt vars) w = (Inr filled, w1)"
    and r1: "io_bind (chat_completion vars filled jm)
               (\<lambda>content. if jm then io_lift (json_loads content) else io_return (JStr content)) w1
             = (Inr v, w')"
    unfolding call_llm_def by (blast dest: io_bind_InrD)
  from f have f': "format prompt vars = Inr filled" "w1 = w"
    by (simp_all add: io_lift_def)
  from r1 obtain content w2 where
    c: "chat_completion vars filled jm w1 = (Inr content, w2)"
    and r2: "(if jm then io_lift (json_loads content) else io_return (JStr content)) w2 = (Inr v, w')"
    by (blast dest: io_bind_InrD)
  from c f'(2) have c': "service w (requests (trace w) @ [(filled, jm)]) = Inr content"
    "w2 = w\<lparr>trace := trace w @ [LlmCall vars filled jm]\<rparr>"
    by (simp_all add: chat_completion_eq)
  from r2 have "(if jm then json_loads content = Inr v else v = JStr content) \<and> w' = w2"
    by (cases jm) (auto simp: io_lift_def io_return_def)
  with f' c' show ?thesis by blast
qed


lemma random_choice_InrD:
  assumes "random_choice seq w = (Inr x, w')"
  shows "(\<exists>xs. seq = JArr xs \<and> xs \<noteq> [] \<and> x = xs ! (rng w 0 mod length xs)
            \<and> w' = w\<lparr>rng := (\<lambda>i. rng w (Suc i)), trace := trace w @ [Random (length xs)]\<rparr>)
       \<or> (\<exists>s c. seq = JStr s \<and> x = JStr [c])"
proof (cases seq)
  case (JArr xs)
  then show ?thesis using assms
    by (cases "xs = []") (simp_all add: random_choice_def randbelow_def io_defs)
next
  case (JStr s)
  then show ?thesis using assms
    by (cases "s = []") (auto simp add: random_choice_def randbelow_def io_defs)
next
  case (JObj kvs)
  then show ?thesis using assms
    by (cases "kvs = []") (simp_all add: random_choice_def randbelow_def io_defs)
qed (use assms in \<open>simp_all add: random_choice_def io_defs\<close>)

lemma draw_card_InrD:
  assumes "draw_card cards w = (Inr (c, orientation, k), w')"
  shows "\<exists>cs. cards = JArr cs \<and> cs \<noteq> []
       \<and> (orientation = JStr ''upright'' \<or> orientation = JStr ''reversed'')
       \<and> subscript (cs ! (rng w 0 mod length cs)) ''name'' = Inr c
       \<and> (if orientation = JStr ''upright''
           then subscript (cs ! (rng w 0 mod length cs)) ''upright_keywords''
           else subscript (cs ! (rng w 0 mod length cs)) ''reversed_keywords'') = Inr k
       \<and> w' = w\<lparr>rng := (\<lambda>i. rng w (Suc (Suc i))),
                 trace := trace w @ [Random (length cs), Random 2]\<rparr>"
proof -
  from assms obtain card w1 where c1: "random_choice cards w = (Inr card, w1)"
    and r1: "io_bind (random_choice (JArr [JStr ''upright'', JStr ''reversed''])) (\<lambda>orientation.
       io_bind (io_lift (if orientation = JStr ''upright''
                         then subscript card ''upright_keywords''
                         else subscript card ''reversed_keywords'')) (\<lambda>keywords.
       io_bind (io_lift (subscript card ''name'')) (\<lambda>name.
       io_return (name, orientation, keywords)))) w1 = (Inr (c, orientation, k), w')"
    unfolding draw_card_def by (blast dest: io_bind_InrD)
  from r1 obtain o' w2 where c2:
    "random_choice (JArr [JStr ''upright'', JStr ''reversed'']) w1 = (Inr o', w2)"
    and r2: "io_bind (io_lift (if o' = JStr ''upright''
                         then subscript card ''upright_keywords''
                         else subscript card ''reversed_keywords'')) (\<lambda>keywords.
       io_bind (io_lift (subscript card ''name'')) (\<lambda>name.
       io_return (name, o', keywords))) w2 = (Inr (c, orientation, k), w')"
    by (blast dest: io_bind_InrD)
  from r2 obtain k' w3 where c3: "io_lift (if o' = JStr ''upright''
                         then subscript card ''upright_keywords''
                         else subscript card ''reversed_keywords'') w2 = (Inr k', w3)"
    and r3: "io_bind (io_lift (subscript card ''name'')) (\<lambda>name.
       io_return (name, o', k')) w3 = (Inr (c, orientation, k), w')"
    by (blast dest: io_bind_InrD)
  from r3 obtain n' w4 where c4: "io_lift (subscript card ''name'') w3 = (Inr n', w4)"
    and r4: "io_return (n', o', k') w4 = (Inr (c, orientation, k), w')"
    by (blast dest: io_bind_InrD)
  from r4 have e4: "n' = c" "o' = orientation" "k' = k" "w' = w4"
    by (simp_all add: io_return_def)
  from c4 have e3: "subscript card ''name'' = Inr n'" "w4 = w3"
    by (simp_all add: io_lift_def)
  from c3 have e2: "(if o' = JStr ''upright''
                         then subscript card ''upright_keywords''
                         else subscript card ''reversed_keywords'') = Inr k'" "w3 = w2"
    by (simp_all add: io_lift_def)
  have o: "o' = JStr ''upright'' \<or> o' = JStr ''reversed''"
    using random_choice_two [OF c2] by simp
  have w2: "w2 = w1\<lparr>rng := (\<lambda>i. rng w1 (Suc i)), trace := trace w1 @ [Random 2]\<rparr>"
    using random_choice_InrD [OF c2] by simp
  have notstr: "\<not> (\<exists>x. card = JStr x)"
    using e3(1) by (auto simp: subscript_def)
  with random_choice_InrD [OF c1] obtain cs where
    cs: "cards = JArr cs" "cs \<noteq> []" "card = cs ! (rng w 0 mod length cs)"
      "w1 = w\<lparr>rng := (\<lambda>i. rng w (Suc i)), trace := trace w @ [Random (length cs)]\<rparr>"
    by blast
  have w': "w' = w\<lparr>rng := (\<lambda>i. rng w (Suc (Suc i))),
                 trace := trace w @ [Random (length cs), Random 2]\<rparr>"
    using e4(4) e3(2) e2(2) w2 cs(4) by simp
  have k: "(if orientation = JStr ''upright''
           then subscript (cs ! (rng w 0 mod length cs)) ''upright_keywords''
           else subscript (cs ! (rng w 0 mod length cs)) ''reversed_keywords'') = Inr k"
    using e2(1) e4(2,3) cs(3) by (cases "orientation = JStr ''upright''") simp_all
  have n: "subscript (cs ! (rng w 0 mod length cs)) ''name'' = Inr c"
    using e3(1) e4(1) cs(3) by simp
  have oo: "orientation = JStr ''upright'' \<or> orientation = JStr ''reversed''"
    using o e4(2) by simp
  from cs(1,2) oo n k w' show ?thesis by blast
qed


lemma io_bind_InrE:
  assumes "io_bind m f w = (Inr y, w')"
  obtains x w1 where "m w = (Inr x, w1)" "f x w1 = (Inr y, w')"
  using assms by (blast dest: io_bind_InrD)

lemma write_text_InrD:
  "write_text path data w = (Inr u, w') \<Longrightarrow>
     \<exists>t. data = JStr t
       \<and> w' = w\<lparr>files := (files w)(path \<mapsto> t), trace := trace w @ [WriteFile path t]\<rparr>"
  by (cases data) (auto simp: write_text_def)

lemma draw_step_InrD:
  assumes "draw_step cards fp np st (step, pos) w = (Inr st', w')"
  shows "\<exists>cs c o' k i vars filled content.
       cards = JArr cs \<and> cs \<noteq> []
     \<and> (o' = JStr ''upright'' \<or> o' = JStr ''reversed'')
     \<and> subscript (cs ! (rng w 0 mod length cs)) ''name'' = Inr c
     \<and> (if o' = JStr ''upright''
         then subscript (cs ! (rng w 0 mod length cs)) ''upright_keywords''
         else subscript (cs ! (rng w 0 mod length cs)) ''reversed_keywords'') = Inr k
     \<and> (step \<noteq> 1 \<longrightarrow>
           map_of vars ''step'' = Some (JInt step)
         \<and> map_of vars ''history_json'' = Some (JStr (json_dumps (JArr (draw_history st)))))
     \<and> format (if step = 1 then fp else np) vars = Inr filled
     \<and> service w (requests (trace w) @ [(filled, True)]) = Inr content
     \<and> json_loads content = Inr i
     \<and> join_keywords k = Inr ()
     \<and> st' = st\<lparr>draw_history := draw_history st @ [draw_record step pos c o' k i]\<rparr>
     \<and> w' = w\<lparr>rng := (\<lambda>i. rng w (Suc (Suc i))),
               trace := trace w @ [Random (length cs), Random 2, LlmCall vars filled True]\<rparr>"
proof -
  from assms obtain d w1 where d: "draw_card cards w = (Inr d, w1)"
    and r1: "(case d of (card_name, orientation, keywords) \<Rightarrow>
      io_bind
        (if step = 1 then
           call_llm fp
             [(''topic'', topic st), (''question'', question st), (''emotion'', emotion st),
              (''constraints'', constraints st), (''position'', JStr pos),
              (''card_name'', card_name), (''orientation'', orientation),
              (''keywords'', keywords)] True
         else
           call_llm np
             [(''step'', JInt step), (''topic'', topic st), (''question'', question st),
              (''emotion'', emotion st), (''constraints'', constraints st),
              (''history_json'', JStr (json_dumps (JArr (draw_history st)))),
              (''position'', JStr pos), (''card_name'', card_name),
              (''orientation'', orientation), (''keywords'', keywords)] True) (\<lambda>interp.
      let st' = st\<lparr>draw_history :=
                   draw_history st
                   @ [draw_record step pos card_name orientation keywords interp]\<rparr>
      in io_bind (io_lift (join_keywords keywords)) (\<lambda>_. io_return st'))) w1 = (Inr st', w')"
    unfolding draw_step_def prod.case by (erule io_bind_InrE)
  obtain c o' k where dd: "d = (c, o', k)" by (cases d)
  define vars where "vars = (if step = 1 then
             [(''topic'', topic st), (''question'', question st), (''emotion'', emotion st),
              (''constraints'', constraints st), (''position'', JStr pos),
              (''card_name'', c), (''orientation'', o'),
              (''keywords'', k)]
         else
             [(''step'', JInt step), (''topic'', topic st), (''question'', question st),
              (''emotion'', emotion st), (''constraints'', constraints st),
              (''history_json'', JStr (json_dumps (JArr (draw_history st)))),
              (''position'', JStr pos), (''card_name'', c),
              (''orientation'', o'), (''keywords'', k)])"
  from r1 have r1': "io_bind (call_llm (if step = 1 then fp else np) vars True) (\<lambda>interp.
      io_bind (io_lift (join_keywords k)) (\<lambda>_. io_return
        (st\<lparr>draw_history := draw_history st @ [draw_record step pos c o' k interp]\<rparr>))) w1
        = (Inr st', w')"
    unfolding dd prod.case Let_def vars_def
    by (cases "step = 1") simp_all
  from r1' obtain i w2 where
    l: "call_llm (if step = 1 then fp else np) vars True w1 = (Inr i, w2)"
    and r2: "io_bind (io_lift (join_keywords k)) (\<lambda>_. io_return
        (st\<lparr>draw_history := draw_history st @ [draw_record step pos c o' k i]\<rparr>)) w2
        = (Inr st', w')"
    by (erule io_bind_InrE)
  from r2 have j: "join_keywords k = Inr ()"
    and st': "st' = st\<lparr>draw_history := draw_history st @ [draw_record step pos c o' k i]\<rparr>"
    and w': "w' = w2"
    by (auto elim!: io_bind_InrE simp: io_lift_def io_return_def)
  from draw_card_InrD [OF d [unfolded dd]] obtain cs where
    cs: "cards = JArr cs" "cs \<noteq> []"
      "o' = JStr ''upright'' \<or> o' = JStr ''reversed''"
      "subscript (cs ! (rng w 0 mod length cs)) ''name'' = Inr c"
      "(if o' = JStr ''upright''
         then subscript (cs ! (rng w 0 mod length cs)) ''upright_keywords''
         else subscript (cs ! (rng w 0 mod length cs)) ''reversed_keywords'') = Inr k"
      "w1 = w\<lparr>rng := (\<lambda>i. rng w (Suc (Suc i))),
               trace := trace w @ [Random (length cs), Random 2]\<rparr>"
    by blast
  from call_llm_InrD [OF l] obtain filled content where
    fc: "format (if step = 1 then fp else np) vars = Inr filled"
      "service w1 (requests (trace w1) @ [(filled, True)]) = Inr content"
      "json_loads content = Inr i"
      "w2 = w1\<lparr>trace := trace w1 @ [LlmCall vars filled True]\<rparr>"
    by auto
  have sv: "service w (requests (trace w) @ [(filled, True)]) = Inr content"
    using fc(2) cs(6) by simp
  have wf: "w' = w\<lparr>rng := (\<lambda>i. rng w (Suc (Suc i))),
               trace := trace w @ [Random (length cs), Random 2, LlmCall vars filled True]\<rparr>"
    using w' fc(4) cs(6) by simp
  have vs: "step \<noteq> 1 \<longrightarrow>
           map_of vars ''step'' = Some (JInt step)
         \<and> map_of vars ''history_json'' = Some (JStr (json_dumps (JArr (draw_history st))))"
    by (simp add: vars_def)
  from cs(1-5) vs fc(1) sv fc(3) j st' wf show ?thesis by blast
qed


lemma draw_step_JArr_InrD:
  assumes "draw_step (JArr cs) fp np st (step, pos) w = (Inr st', w')"
  shows "\<exists>c o' k i vars filled content.
       cs \<noteq> []
     \<and> (o' = JStr ''upright'' \<or> o' = JStr ''reversed'')
     \<and> subscript (cs ! (rng w 0 mod length cs)) ''name'' = Inr c
     \<and> (if o' = JStr ''upright''
         then subscript (cs ! (rng w 0 mod length cs)) ''upright_keywords''
         else subscript (cs ! (rng w 0 mod length cs)) ''reversed_keywords'') = Inr k
     \<and> (step \<noteq> 1 \<longrightarrow>
           map_of vars ''step'' = Some (JInt step)
         \<and> map_of vars ''history_json'' = Some (JStr (json_dumps (JArr (draw_history st)))))
     \<and> format (if step = 1 then fp else np) vars = Inr filled
     \<and> service w (requests (trace w) @ [(filled, True)]) = Inr content
     \<and> json_loads content = Inr i
     \<and> join_keywords k = Inr ()
     \<and> st' = st\<lparr>draw_history := draw_history st @ [draw_record step pos c o' k i]\<rparr>
     \<and> w' = w\<lparr>rng := (\<lambda>i. rng w (Suc (Suc i))),
               trace := trace w @ [Random (length cs), Random 2, LlmCall vars filled True]\<rparr>"
proof -
  from draw_step_InrD [OF assms] obtain cs' c o' k i vars filled content where
    h: "JArr cs = JArr cs'" "cs' \<noteq> []"
      "o' = JStr ''upright'' \<or> o' = JStr ''reversed''"
      "subscript (cs' ! (rng w 0 mod length cs')) ''name'' = Inr c"
      "(if o' = JStr ''upright''
         then subscript (cs' ! (rng w 0 mod length cs')) ''upright_keywords''
         else subscript (cs' ! (rng w 0 mod length cs')) ''reversed_keywords'') = Inr k"
      "step \<noteq> 1 \<longrightarrow>
           map_of vars ''step'' = Some (JInt step)
         \<and> map_of vars ''history_json'' = Some (JStr (json_dumps (JArr (draw_history st))))"
      "format (if step = 1 then fp else np) vars = Inr filled"
      "service w (requests (trace w) @ [(filled, True)]) = Inr content"
      "json_loads content = Inr i"
      "join_keywords k = Inr ()"
      "st' = st\<lparr>draw_history := draw_history st @ [draw_record step pos c o' k i]\<rparr>"
      "w' = w\<lparr>rng := (\<lambda>i. rng w (Suc (Suc i))),
               trace := trace w @ [Random (length cs'), Random 2, LlmCall vars filled True]\<rparr>"
    by blast
  from h(1) have e: "cs' = cs" by simp
  from h(2-12) [unfolded e] show ?thesis by blast
qed

lemma enumerate_positions:
  "enumerate_from 1 positions = [(1, ''past''), (2, ''present''), (3, ''future'')]"
  by (simp add: positions_def)

lemma now_strftime_InrD: "now_strftime w = (Inr ts, w') \<Longrightarrow> ts = clock w \<and> w' = w"
  by (auto simp: now_strftime_def)

lemma main_steps:
  assumes "main w = (Inr (st, rv), w')"
  obtains ctext cards ip fp np rp line1 line2 intent t0 q0 e0 c0 s1 s2 s3 s4 review ts
    w1 w2 w3 w4 w5 w6 w7 w8 w9 w10 w11 w12 w13 w14 w15 w16 w17 w18 w19 w20 w21 u1 u2
  where
    "read_text ''cards.json'' w = (Inr ctext, w1)"
    "io_lift (json_loads ctext) w1 = (Inr cards, w2)"
    "read_text ''prompts/intent_parser.txt'' w2 = (Inr ip, w3)"
    "read_text ''prompts/interpret_first.txt'' w3 = (Inr fp, w4)"
    "read_text ''prompts/interpret_next.txt'' w4 = (Inr np, w5)"
    "read_text ''prompts/final_review.txt'' w5 = (Inr rp, w6)"
    "input w6 = (Inr line1, w7)"
    "input w7 = (Inr line2, w8)"
    "call_llm ip [(''player_text'', JStr (''[topic_hint='' @ strip line1 @ ''] '' @ strip line2))]
       True w8 = (Inr intent, w9)"
    "io_lift (dict_get intent ''topic'' (JStr (strip line1))) w9 = (Inr t0, w10)"
    "io_lift (subscript intent ''question'') w10 = (Inr q0, w11)"
    "io_lift (dict_get intent ''emotion'' (JStr ''other'')) w11 = (Inr e0, w12)"
    "io_lift (dict_get intent ''constraints'' (JArr [])) w12 = (Inr c0, w13)"
    "draw_step cards fp np
       \<lparr>topic = t0, question = q0, emotion = e0, constraints = c0, draw_history = []\<rparr>
       (1, ''past'') w13 = (Inr s1, w14)"
    "draw_step cards fp np s1 (2, ''present'') w14 = (Inr s2, w15)"
    "draw_step cards fp np s2 (3, ''future'') w15 = (Inr s3, w16)"
    "io_return s3 w16 = (Inr s4, w17)"
    "call_llm rp [(''topic'', topic s4), (''question'', question s4),
                 (''history_json'', JStr (json_dumps (JArr (draw_history s4))))] False w17
       = (Inr review, w18)"
    "now_strftime w18 = (Inr ts, w19)"
    "write_text (''runs/run_'' @ ts @ ''.json'') (JStr (json_dumps (state_json s4))) w19
       = (Inr u1, w20)"
    "write_text (''runs/run_'' @ ts @ ''.md'') review w20 = (Inr u2, w21)"
    "io_return (s4, review) w21 = (Inr (st, rv), w')"
  using assms unfolding main_def Let_def enumerate_positions
  apply (elim io_bind_InrE)
  apply ((unfold for_each.simps)?, (elim io_bind_InrE)?)
  apply ((unfold for_each.simps)?, (elim io_bind_InrE)?)
  apply ((unfold for_each.simps)?, (elim io_bind_InrE)?)
  apply (rule that; assumption)
  done


lemma main_run:
  assumes "main w = (Inr (st, rv), w')"
  obtains ctext cs ip fp np rp line1 line2 rest f0 content0 intent
    c1 o1 k1 i1 v1 f1 content1 c2 o2 k2 i2 v2 f2 content2 c3 o3 k3 i3 v3 f3 content3 f4 R
  where
    "files w ''cards.json'' = Some ctext" "json_loads ctext = Inr (JArr cs)" "cs \<noteq> []"
    "files w ''prompts/intent_parser.txt'' = Some ip"
    "files w ''prompts/interpret_first.txt'' = Some fp"
    "files w ''prompts/interpret_next.txt'' = Some np"
    "files w ''prompts/final_review.txt'' = Some rp"
    "stdin w = line1 # line2 # rest"
    "format ip [(''player_text'', JStr (''[topic_hint='' @ strip line1 @ ''] '' @ strip line2))]
       = Inr f0"
    "service w (requests (trace w) @ [(f0, True)]) = Inr content0"
    "json_loads content0 = Inr intent"
    "dict_get intent ''topic'' (JStr (strip line1)) = Inr (topic st)"
    "subscript intent ''question'' = Inr (question st)"
    "dict_get intent ''emotion'' (JStr ''other'') = Inr (emotion st)"
    "dict_get intent ''constraints'' (JArr []) = Inr (constraints st)"
    "draw_history st = [draw_record 1 ''past'' c1 o1 k1 i1, draw_record 2 ''present'' c2 o2 k2 i2,
                        draw_record 3 ''future'' c3 o3 k3 i3]"
    "o1 = JStr ''upright'' \<or> o1 = JStr ''reversed''"
    "o2 = JStr ''upright'' \<or> o2 = JStr ''reversed''"
    "o3 = JStr ''upright'' \<or> o3 = JStr ''reversed''"
    "subscript (cs ! (rng w 0 mod length cs)) ''name'' = Inr c1"
    "(if o1 = JStr ''upright''
      then subscript (cs ! (rng w 0 mod length cs)) ''upright_keywords''
      else subscript (cs ! (rng w 0 mod length cs)) ''reversed_keywords'') = Inr k1"
    "subscript (cs ! (rng w 2 mod length cs)) ''name'' = Inr c2"
    "(if o2 = JStr ''upright''
      then subscript (cs ! (rng w 2 mod length cs)) ''upright_keywords''
      else subscript (cs ! (rng w 2 mod length cs)) ''reversed_keywords'') = Inr k2"
    "subscript (cs ! (rng w 4 mod length cs)) ''name'' = Inr c3"
    "(if o3 = JStr ''upright''
      then subscript (cs ! (rng w 4 mod length cs)) ''upright_keywords''
      else subscript (cs ! (rng w 4 mod length cs)) ''reversed_keywords'') = Inr k3"
    "service w (requests (trace w) @ [(f0, True), (f1, True)]) = Inr content1"
    "json_loads content1 = Inr i1"
    "service w (requests (trace w) @ [(f0, True), (f1, True), (f2, True)]) = Inr content2"
    "json_loads content2 = Inr i2"
    "service w (requests (trace w) @ [(f0, True), (f1, True), (f2, True), (f3, True)])
       = Inr content3"
    "json_loads content3 = Inr i3"
    "map_of v2 ''step'' = Some (JInt 2)"
    "map_of v2 ''history_json''
       = Some (JStr (json_dumps (JArr [draw_record 1 ''past'' c1 o1 k1 i1])))"
    "map_of v3 ''step'' = Some (JInt 3)"
    "map_of v3 ''history_json''
       = Some (JStr (json_dumps (JArr [draw_record 1 ''past'' c1 o1 k1 i1,
                                        draw_record 2 ''present'' c2 o2 k2 i2])))"
    "service w (requests (trace w)
        @ [(f0, True), (f1, True), (f2, True), (f3, True), (f4, False)]) = Inr R"
    "rv = JStr R"
    "trace w' = trace w @
       [ReadFile ''cards.json'', ReadFile ''prompts/intent_parser.txt'',
        ReadFile ''prompts/interpret_first.txt'', ReadFile ''prompts/interpret_next.txt'',
        ReadFile ''prompts/final_review.txt'', Input, Input,
        LlmCall [(''player_text'', JStr (''[topic_hint='' @ strip line1 @ ''] '' @ strip line2))]
          f0 True,
        Random (length cs), Random 2, LlmCall v1 f1 True,
        Random (length cs), Random 2, LlmCall v2 f2 True,
        Random (length cs), Random 2, LlmCall v3 f3 True,
        LlmCall [(''topic'', topic st), (''question'', question st),
                 (''history_json'', JStr (json_dumps (JArr (draw_history st))))] f4 False,
        WriteFile (''runs/run_'' @ clock w @ ''.json'') (json_dumps (state_json st)),
        WriteFile (''runs/run_'' @ clock w @ ''.md'') R]"
    "files w' = (files w)(''runs/run_'' @ clock w @ ''.json'' \<mapsto> json_dumps (state_json st),
                         ''runs/run_'' @ clock w @ ''.md'' \<mapsto> R)"
proof -
  obtain ctext cards ip fp np rp line1 line2 intent t0 q0 e0 c0
    s1 s2 s3 s4 review ts
    w1 w2 w3 w4 w5 w6 w7 w8 w9 w10 w11 w12 w13 w14 w15 w16 w17 w18 w19 w20 w21 u1 u2
  where
    a1: "read_text ''cards.json'' w = (Inr ctext, w1)"
    and a2: "io_lift (json_loads ctext) w1 = (Inr cards, w2)"
    and a3: "read_text ''prompts/intent_parser.txt'' w2 = (Inr ip, w3)"
    and a4: "read_text ''prompts/interpret_first.txt'' w3 = (Inr fp, w4)"
    and a5: "read_text ''prompts/interpret_next.txt'' w4 = (Inr np, w5)"
    and a6: "read_text ''prompts/final_review.txt'' w5 = (Inr rp, w6)"
    and a7: "input w6 = (Inr line1, w7)"
    and a8: "input w7 = (Inr line2, w8)"
    and a9: "call_llm ip [(''player_text'', JStr (''[topic_hint='' @ strip line1 @ ''] '' @ strip line2))]
       True w8 = (Inr intent, w9)"
    and a10: "io_lift (dict_get intent ''topic'' (JStr (strip line1))) w9 = (Inr t0, w10)"
    and a11: "io_lift (subscript intent ''question'') w10 = (Inr q0, w11)"
    and a12: "io_lift (dict_get intent ''emotion'' (JStr ''other'')) w11 = (Inr e0, w12)"
    and a13: "io_lift (dict_get intent ''constraints'' (JArr [])) w12 = (Inr c0, w13)"
    and a14: "draw_step cards fp np
       \<lparr>topic = t0, question = q0, emotion = e0, constraints = c0, draw_history = []\<rparr>
       (1, ''past'') w13 = (Inr s1, w14)"
    and a15: "draw_step cards fp np s1 (2, ''present'') w14 = (Inr s2, w15)"
    and a16: "draw_step cards fp np s2 (3, ''future'') w15 = (Inr s3, w16)"
    and a17: "io_return s3 w16 = (Inr s4, w17)"
    and a18: "call_llm rp [(''topic'', topic s4), (''question'', question s4),
                 (''history_json'', JStr (json_dumps (JArr (draw_history s4))))] False w17
       = (Inr review, w18)"
    and a19: "now_strftime w18 = (Inr ts, w19)"
    and a20: "write_text (''runs/run_'' @ ts @ ''.json'') (JStr (json_dumps (state_json s4))) w19
       = (Inr u1, w20)"
    and a21: "write_text (''runs/run_'' @ ts @ ''.md'') review w20 = (Inr u2, w21)"
    and a22: "io_return (s4, review) w21 = (Inr (st, rv), w')"
    by (rule main_steps [OF assms]) (rule that; assumption)
  note b1 = read_text_InrD [OF a1]
  from io_lift_InrD [OF a2] have b2: "json_loads ctext = Inr cards" "w2 = w1" by simp_all
  note b3 = read_text_InrD [OF a3] and b4 = read_text_InrD [OF a4]
    and b5 = read_text_InrD [OF a5] and b6 = read_text_InrD [OF a6]
  have w6: "w6 = w\<lparr>trace := trace w @
       [ReadFile ''cards.json'', ReadFile ''prompts/intent_parser.txt'',
        ReadFile ''prompts/interpret_first.txt'', ReadFile ''prompts/interpret_next.txt'',
        ReadFile ''prompts/final_review.txt'']\<rparr>"
    using b1 b2(2) b3 b4 b5 b6 by simp
  have fl: "files w ''cards.json'' = Some ctext"
    "files w ''prompts/intent_parser.txt'' = Some ip"
    "files w ''prompts/interpret_first.txt'' = Some fp"
    "files w ''prompts/interpret_next.txt'' = Some np"
    "files w ''prompts/final_review.txt'' = Some rp"
    using b1 b2(2) b3 b4 b5 b6 by simp_all
  from input_InrD [OF a7] obtain ls1 where i1: "stdin w6 = line1 # ls1"
    "w7 = w6\<lparr>stdin := ls1, trace := trace w6 @ [Input]\<rparr>" by blast
  from input_InrD [OF a8] obtain rest where i2: "stdin w7 = line2 # rest"
    "w8 = w7\<lparr>stdin := rest, trace := trace w7 @ [Input]\<rparr>" by blast
  have sin: "stdin w = line1 # line2 # rest"
    using i1 i2 w6 by simp
  have w8: "w8 = w\<lparr>stdin := rest, trace := trace w @
       [ReadFile ''cards.json'', ReadFile ''prompts/intent_parser.txt'',
        ReadFile ''prompts/interpret_first.txt'', ReadFile ''prompts/interpret_next.txt'',
        ReadFile ''prompts/final_review.txt'', Input, Input]\<rparr>"
    using i1(2) i2(2) w6 by simp
  let ?v0 = "[(''player_text'', JStr (''[topic_hint='' @ strip line1 @ ''] '' @ strip line2))]"
  from call_llm_InrD [OF a9] obtain f0 content0 where
    l0: "format ip ?v0 = Inr f0"
      "service w8 (requests (trace w8) @ [(f0, True)]) = Inr content0"
      "json_loads content0 = Inr intent"
      "w9 = w8\<lparr>trace := trace w8 @ [LlmCall ?v0 f0 True]\<rparr>"
    by auto
  have sv0: "service w (requests (trace w) @ [(f0, True)]) = Inr content0"
    using l0(2) w8 by simp
  from io_lift_InrD [OF a10] io_lift_InrD [OF a11] io_lift_InrD [OF a12] io_lift_InrD [OF a13]
  have d: "dict_get intent ''topic'' (JStr (strip line1)) = Inr t0"
    "subscript intent ''question'' = Inr q0"
    "dict_get intent ''emotion'' (JStr ''other'') = Inr e0"
    "dict_get intent ''constraints'' (JArr []) = Inr c0"
    and w13: "w13 = w9"
    by simp_all
  have w13': "w13 = w\<lparr>stdin := rest, trace := trace w @
       [ReadFile ''cards.json'', ReadFile ''prompts/intent_parser.txt'',
        ReadFile ''prompts/interpret_first.txt'', ReadFile ''prompts/interpret_next.txt'',
        ReadFile ''prompts/final_review.txt'', Input, Input, LlmCall ?v0 f0 True]\<rparr>"
    using w13 l0(4) w8 by simp
  let ?st0 = "\<lparr>topic = t0, question = q0, emotion = e0, constraints = c0, draw_history = []\<rparr>"
  from draw_step_InrD [OF a14] obtain cs where cards: "cards = JArr cs"
    by blast
  note a14' = a14 [unfolded cards] and a15' = a15 [unfolded cards]
    and a16' = a16 [unfolded cards]
  from draw_step_JArr_InrD [OF a14'] obtain c1 o1 k1 i1 v1 f1 content1 where
    p1: "cards = JArr cs" "cs \<noteq> []"
      "o1 = JStr ''upright'' \<or> o1 = JStr ''reversed''"
      "subscript (cs ! (rng w13 0 mod length cs)) ''name'' = Inr c1"
      "(if o1 = JStr ''upright''
         then subscript (cs ! (rng w13 0 mod length cs)) ''upright_keywords''
         else subscript (cs ! (rng w13 0 mod length cs)) ''reversed_keywords'') = Inr k1"
      "service w13 (requests (trace w13) @ [(f1, True)]) = Inr content1"
      "json_loads content1 = Inr i1"
      "s1 = ?st0\<lparr>draw_history := draw_history ?st0 @ [draw_record 1 ''past'' c1 o1 k1 i1]\<rparr>"
      "w14 = w13\<lparr>rng := (\<lambda>i. rng w13 (Suc (Suc i))),
               trace := trace w13 @ [Random (length cs), Random 2, LlmCall v1 f1 True]\<rparr>"
    using cards by blast
  have two: "(2::int) \<noteq> 1" and three: "(3::int) \<noteq> 1" by simp_all
  from draw_step_JArr_InrD [OF a15'] two obtain c2 o2 k2 i2 v2 f2 content2 where
    p2: "o2 = JStr ''upright'' \<or> o2 = JStr ''reversed''"
      "subscript (cs ! (rng w14 0 mod length cs)) ''name'' = Inr c2"
      "(if o2 = JStr ''upright''
         then subscript (cs ! (rng w14 0 mod length cs)) ''upright_keywords''
         else subscript (cs ! (rng w14 0 mod length cs)) ''reversed_keywords'') = Inr k2"
      "map_of v2 ''step'' = Some (JInt 2)"
      "map_of v2 ''history_json'' = Some (JStr (json_dumps (JArr (draw_history s1))))"
      "service w14 (requests (trace w14) @ [(f2, True)]) = Inr content2"
      "json_loads content2 = Inr i2"
      "s2 = s1\<lparr>draw_history := draw_history s1 @ [draw_record 2 ''present'' c2 o2 k2 i2]\<rparr>"
      "w15 = w14\<lparr>rng := (\<lambda>i. rng w14 (Suc (Suc i))),
               trace := trace w14 @ [Random (length cs), Random 2, LlmCall v2 f2 True]\<rparr>"
    by blast
  from draw_step_JArr_InrD [OF a16'] three obtain c3 o3 k3 i3 v3 f3 content3 where
    p3: "o3 = JStr ''upright'' \<or> o3 = JStr ''reversed''"
      "subscript (cs ! (rng w15 0 mod length cs)) ''name'' = Inr c3"
      "(if o3 = JStr ''upright''
         then subscript (cs ! (rng w15 0 mod length cs)) ''upright_keywords''
         else subscript (cs ! (rng w15 0 mod length cs)) ''reversed_keywords'') = Inr k3"
      "map_of v3 ''step'' = Some (JInt 3)"
      "map_of v3 ''history_json'' = Some (JStr (json_dumps (JArr (draw_history s2))))"
      "service w15 (requests (trace w15) @ [(f3, True)]) = Inr content3"
      "json_loads content3 = Inr i3"
      "s3 = s2\<lparr>draw_history := draw_history s2 @ [draw_record 3 ''future'' c3 o3 k3 i3]\<rparr>"
      "w16 = w15\<lparr>rng := (\<lambda>i. rng w15 (Suc (Suc i))),
               trace := trace w15 @ [Random (length cs), Random 2, LlmCall v3 f3 True]\<rparr>"
    by blast
  from io_return_InrD [OF a17] have s4: "s4 = s3" and w17: "w17 = w16" by simp_all
  from io_return_InrD [OF a22] have fin: "st = s4" "rv = review" "w' = w21" by simp_all
  have st: "st = \<lparr>topic = t0, question = q0, emotion = e0, constraints = c0,
      draw_history = [draw_record 1 ''past'' c1 o1 k1 i1, draw_record 2 ''present'' c2 o2 k2 i2,
                      draw_record 3 ''future'' c3 o3 k3 i3]\<rparr>"
    using fin(1) s4 p3(8) p2(8) p1(8) by simp
  let ?v4 = "[(''topic'', topic st), (''question'', question st),
              (''history_json'', JStr (json_dumps (JArr (draw_history st))))]"
  from call_llm_InrD [OF a18] obtain f4 R where
    l4: "service w17 (requests (trace w17) @ [(f4, False)]) = Inr R"
      "review = JStr R"
      "w18 = w17\<lparr>trace := trace w17 @ [LlmCall ?v4 f4 False]\<rparr>"
    using fin(1) by auto
  from now_strftime_InrD [OF a19] have ts: "ts = clock w18" "w19 = w18" by simp_all
  from write_text_InrD [OF a20]
  have w20: "w20 = w19\<lparr>files := (files w19)(''runs/run_'' @ ts @ ''.json'' \<mapsto> json_dumps (state_json s4)),
        trace := trace w19 @ [WriteFile (''runs/run_'' @ ts @ ''.json'') (json_dumps (state_json s4))]\<rparr>"
    by simp
  from write_text_InrD [OF a21] l4(2)
  have w21: "w21 = w20\<lparr>files := (files w20)(''runs/run_'' @ ts @ ''.md'' \<mapsto> R),
        trace := trace w20 @ [WriteFile (''runs/run_'' @ ts @ ''.md'') R]\<rparr>"
    by simp
  have w14: "w14 = w\<lparr>stdin := rest, rng := (\<lambda>i. rng w (Suc (Suc i))), trace := trace w @
       [ReadFile ''cards.json'', ReadFile ''prompts/intent_parser.txt'',
        ReadFile ''prompts/interpret_first.txt'', ReadFile ''prompts/interpret_next.txt'',
        ReadFile ''prompts/final_review.txt'', Input, Input, LlmCall ?v0 f0 True,
        Random (length cs), Random 2, LlmCall v1 f1 True]\<rparr>"
    using p1(9) w13' by simp
  have w15: "w15 = w\<lparr>stdin := rest, rng := (\<lambda>i. rng w (Suc (Suc (Suc (Suc i))))), trace := trace w @
       [ReadFile ''cards.json'', ReadFile ''prompts/intent_parser.txt'',
        ReadFile ''prompts/interpret_first.txt'', ReadFile ''prompts/interpret_next.txt'',
        ReadFile ''prompts/final_review.txt'', Input, Input, LlmCall ?v0 f0 True,
        Random (length cs), Random 2, LlmCall v1 f1 True,
        Random (length cs), Random 2, LlmCall v2 f2 True]\<rparr>"
    using p2(9) w14 by simp
  have w16: "w16 = w\<lparr>stdin := rest,
        rng := (\<lambda>i. rng w (Suc (Suc (Suc (Suc (Suc (Suc i))))))), trace := trace w @
       [ReadFile ''cards.json'', ReadFile ''prompts/intent_parser.txt'',
        ReadFile ''prompts/interpret_first.txt'', ReadFile ''prompts/interpret_next.txt'',
        ReadFile ''prompts/final_review.txt'', Input, Input, LlmCall ?v0 f0 True,
        Random (length cs), Random 2, LlmCall v1 f1 True,
        Random (length cs), Random 2, LlmCall v2 f2 True,
        Random (length cs), Random 2, LlmCall v3 f3 True]\<rparr>"
    using p3(9) w15 by simp
  have r13: "rng w13 0 = rng w 0" using w13' by simp
  have r14: "rng w14 0 = rng w 2" using w14 by (simp add: numeral_2_eq_2)
  have r15: "rng w15 0 = rng w 4" using w15 by (simp add: eval_nat_numeral)
  note c1 = p1(4,5) [unfolded r13] and c2 = p2(2,3) [unfolded r14]
    and c3 = p3(2,3) [unfolded r15]
  have sv1: "service w (requests (trace w) @ [(f0, True), (f1, True)]) = Inr content1"
    using p1(6) w13' by simp
  have sv2: "service w (requests (trace w) @ [(f0, True), (f1, True), (f2, True)]) = Inr content2"
    using p2(6) w14 by simp
  have sv3: "service w (requests (trace w) @ [(f0, True), (f1, True), (f2, True), (f3, True)])
       = Inr content3"
    using p3(6) w15 by simp
  have sv4: "service w (requests (trace w)
        @ [(f0, True), (f1, True), (f2, True), (f3, True), (f4, False)]) = Inr R"
    using l4(1) w17 w16 by simp
  have h2: "map_of v2 ''history_json''
       = Some (JStr (json_dumps (JArr [draw_record 1 ''past'' c1 o1 k1 i1])))"
    using p2(5) p1(8) by simp
  have h3: "map_of v3 ''history_json''
       = Some (JStr (json_dumps (JArr [draw_record 1 ''past'' c1 o1 k1 i1,
                                        draw_record 2 ''present'' c2 o2 k2 i2])))"
    using p3(5) p2(8) p1(8) by simp
  have tr: "trace w' = trace w @
       [ReadFile ''cards.json'', ReadFile ''prompts/intent_parser.txt'',
        ReadFile ''prompts/interpret_first.txt'', ReadFile ''prompts/interpret_next.txt'',
        ReadFile ''prompts/final_review.txt'', Input, Input,
        LlmCall ?v0 f0 True,
        Random (length cs), Random 2, LlmCall v1 f1 True,
        Random (length cs), Random 2, LlmCall v2 f2 True,
        Random (length cs), Random 2, LlmCall v3 f3 True,
        LlmCall ?v4 f4 False,
        WriteFile (''runs/run_'' @ clock w @ ''.json'') (json_dumps (state_json st)),
        WriteFile (''runs/run_'' @ clock w @ ''.md'') R]"
    using fin(1,3) w21 w20 ts l4(3) w17 w16 by simp
  have fs: "files w' = (files w)(''runs/run_'' @ clock w @ ''.json'' \<mapsto> json_dumps (state_json st),
                         ''runs/run_'' @ clock w @ ''.md'' \<mapsto> R)"
    using fin(1,3) w21 w20 ts l4(3) w17 w16 by simp
  have g1: "json_loads ctext = Inr (JArr cs)" using b2(1) cards by simp
  have g2: "dict_get intent ''topic'' (JStr (strip line1)) = Inr (topic st)"
    "subscript intent ''question'' = Inr (question st)"
    "dict_get intent ''emotion'' (JStr ''other'') = Inr (emotion st)"
    "dict_get intent ''constraints'' (JArr []) = Inr (constraints st)"
    using d st by simp_all
  have g3: "draw_history st = [draw_record 1 ''past'' c1 o1 k1 i1,
      draw_record 2 ''present'' c2 o2 k2 i2, draw_record 3 ''future'' c3 o3 k3 i3]"
    using st by simp
  have g4: "rv = JStr R" using fin(2) l4(2) by simp
  show ?thesis
    by (rule that [OF fl(1) g1 p1(2) fl(2) fl(3) fl(4) fl(5) sin l0(1) sv0 l0(3)
          g2(1) g2(2) g2(3) g2(4) g3 p1(3) p2(1) p3(1) c1(1) c1(2) c2(1) c2(2) c3(1) c3(2)
          sv1 p1(7) sv2 p2(7) sv3 p3(7) p2(4) h2 p3(4) h3 sv4 g4 tr fs])
qed

lemma main_fst_InrD:
  "fst (main w) = Inr (st, rv) \<Longrightarrow> \<exists>w'. main w = (Inr (st, rv), w')"
  by (cases "main w") simp

lemma demo_main: "fst (main demo_world) = Inr (demo_state, JStr ''A calm review.'')"
proof -
  have "case fst (main demo_world) of
          Inl _ \<Rightarrow> False
        | Inr (s, r) \<Rightarrow>
            topic s = topic demo_state \<and> question s = question demo_state
            \<and> emotion s = emotion demo_state \<and> constraints s = constraints demo_state
            \<and> draw_history s = draw_history demo_state \<and> r = JStr ''A calm review.''"
    by code_simp
  then show ?thesis
    by (auto split: sum.splits)
qed


subsection \<open>What every run adds to the trace\<close>






lemma adds_weaken: "adds Q m R \<Longrightarrow> (\<And>x. R x \<Longrightarrow> S x) \<Longrightarrow> adds Q m S"
  unfolding adds_def by blast










lemma call_in_order_simps [simp]:
  "call_in_order (Random n)" "call_in_order (ReadFile p)" "call_in_order Input"
  "call_in_order (WriteFile p t)" "call_in_order (MkDir p)"
  by (simp_all add: call_in_order_def)





subsection \<open>A run that stops at the intent\<close>

lemma main_missing_question_run:
  assumes "files w ''cards.json'' = Some ctext" "json_loads ctext = Inr cards"
    and "files w ''prompts/intent_parser.txt'' = Some ip"
    and "files w ''prompts/interpret_first.txt'' = Some fp"
    and "files w ''prompts/interpret_next.txt'' = Some np"
    and "files w ''prompts/final_review.txt'' = Some rp"
    and "stdin w = line1 # line2 # rest"
    and "format ip [(''player_text'', JStr (''[topic_hint='' @ strip line1 @ ''] '' @ strip line2))]
           = Inr f0"
    and "service w (requests (trace w) @ [(f0, True)]) = Inr content"
    and "json_loads content = Inr (JObj kvs)"
    and "map_of kvs ''question'' = None"
  shows "main w = (Inl (KeyError (JStr ''question'')),
      w\<lparr>stdin := rest, trace := trace w @
       [ReadFile ''cards.json'', ReadFile ''prompts/intent_parser.txt'',
        ReadFile ''prompts/interpret_first.txt'', ReadFile ''prompts/interpret_next.txt'',
        ReadFile ''prompts/final_review.txt'', Input, Input,
        LlmCall [(''player_text'', JStr (''[topic_hint='' @ strip line1 @ ''] '' @ strip line2))]
          f0 True]\<rparr>)"
  unfolding main_def
  using assms
  by (simp add: io_defs read_text_def input_def call_llm_def chat_completion_eq
      dict_get_def subscript_def Let_def split: option.splits)

section \<open>Draw engine: theorems\<close>

text \<open>
  C4. Whenever \<open>draw_card\<close> returns on a non-empty deck, the orientation it returns is
  \<open>upright\<close> or \<open>reversed\<close>, the name is the \<open>name\<close> of the card the random source
  selected, and the keywords are that card's \<open>upright_keywords\<close> when the orientation
  is upright and its \<open>reversed_keywords\<close> when it is reversed.
\<close>

theorem draw_card_keywords:
  assumes "cards \<noteq> []"
    and "fst (draw_card (JArr cards) w) = Inr (name, orientation, keywords)"
  shows "(orientation = JStr ''upright'' \<or> orientation = JStr ''reversed'')
       \<and> subscript (cards ! (rng w 0 mod length cards)) ''name'' = Inr name
       \<and> (orientation = JStr ''upright'' \<longrightarrow>
            subscript (cards ! (rng w 0 mod length cards)) ''upright_keywords'' = Inr keywords)
       \<and> (orientation = JStr ''reversed'' \<longrightarrow>
            subscript (cards ! (rng w 0 mod length cards)) ''reversed_keywords'' = Inr keywords)"
proof -
  obtain r1 w1 where c1: "random_choice (JArr cards) w = (r1, w1)" by fastforce
  have r1: "r1 = Inr (cards ! (rng w 0 mod length cards))"
    using c1 assms(1) by (auto simp: random_choice_def randbelow_def io_defs)
  obtain r2 w2 where c2: "random_choice (JArr [JStr ''upright'', JStr ''reversed'']) w1 = (r2, w2)"
    by fastforce
  from random_choice_two [OF c2]
  have r2: "r2 = Inr (JStr ''upright'') \<or> r2 = Inr (JStr ''reversed'')" .
  show ?thesis
    using assms(2) c1 c2 r1 r2 unfolding draw_card_def
    by (auto simp: io_defs split: if_splits sum.splits prod.splits)
qed

theorem draw_card_keywords_witness:
  "demo_deck \<noteq> []
   \<and> fst (draw_card (JArr demo_deck) demo_world)
       = Inr (JStr ''The Fool'', JStr ''reversed'', JArr [JStr ''recklessness''])
   \<and> subscript (demo_deck ! (rng demo_world 0 mod length demo_deck)) ''reversed_keywords''
       = Inr (JArr [JStr ''recklessness''])"
proof -
  have ne: "demo_deck \<noteq> []"
    by (simp add: demo_deck_def)
  have run: "fst (draw_card (JArr demo_deck) demo_world)
      = Inr (JStr ''The Fool'', JStr ''reversed'', JArr [JStr ''recklessness''])"
    by (simp add: draw_card_def random_choice_def randbelow_def io_defs subscript_def
        demo_deck_def demo_world_def)
  note t = draw_card_keywords [OF ne run]
  have "subscript (demo_deck ! (rng demo_world 0 mod length demo_deck)) ''reversed_keywords''
      = Inr (JArr [JStr ''recklessness''])"
    by (rule t [THEN conjunct2, THEN conjunct2, THEN conjunct2, THEN mp]) (rule refl)
  with ne run show ?thesis by blast
qed



section \<open>Template substitution: theorems\<close>




section \<open>Startup: theorems\<close>

text \<open>
  C9. When \<open>OPENAI_API_KEY\<close> is not in the environment, or is there but empty (the
  default the program falls back to), the program stops with ValueError and the world
  is left as it was: nothing was read, nobody was prompted, no request was sent, no
  directory or file was made.
\<close>

theorem no_key_fails_at_startup:
  assumes "environ w ''OPENAI_API_KEY'' = None \<or> environ w ''OPENAI_API_KEY'' = Some []"
  shows "program w = (Inl ValueError, w)"
  using assms by (auto simp: program_def getenv_def io_defs)

theorem no_key_fails_at_startup_witness:
  "environ (demo_world\<lparr>environ := Map.empty\<rparr>) ''OPENAI_API_KEY'' = None
   \<and> program (demo_world\<lparr>environ := Map.empty\<rparr>)
       = (Inl ValueError, demo_world\<lparr>environ := Map.empty\<rparr>)"
proof -
  have h: "environ (demo_world\<lparr>environ := Map.empty\<rparr>) ''OPENAI_API_KEY'' = None"
    by simp
  have "program (demo_world\<lparr>environ := Map.empty\<rparr>)
      = (Inl ValueError, demo_world\<lparr>environ := Map.empty\<rparr>)"
    by (rule no_key_fails_at_startup) (rule disjI1, rule h)
  with h show ?thesis by blast
qed

section \<open>The session: theorems\<close>

text \<open>
  C1. When \<open>main\<close> runs to its end, the \<open>draw_history\<close> of the final state has
  exactly three entries; their \<open>position\<close> fields are past, present, future in that
  order (and their \<open>step\<close> fields 1, 2, 3); each entry holds one drawn card under
  \<open>card\<close> and one orientation, upright or reversed, under \<open>orientation\<close>.
\<close>

theorem session_draw_history:
  assumes "fst (main w) = Inr (st, rv)"
  shows "length (draw_history st) = 3
       \<and> map (\<lambda>d. subscript d ''position'') (draw_history st)
           = [Inr (JStr ''past''), Inr (JStr ''present''), Inr (JStr ''future'')]
       \<and> map (\<lambda>d. subscript d ''step'') (draw_history st)
           = [Inr (JInt 1), Inr (JInt 2), Inr (JInt 3)]
       \<and> (\<forall>d \<in> set (draw_history st).
             \<exists>c o'. subscript d ''card'' = Inr c \<and> subscript d ''orientation'' = Inr o'
               \<and> (o' = JStr ''upright'' \<or> o' = JStr ''reversed''))"
proof -
  from main_fst_InrD [OF assms] obtain w' where m: "main w = (Inr (st, rv), w')" ..
  from main_run [OF m] obtain c1 o1 k1 i1 c2 o2 k2 i2 c3 o3 k3 i3 where
    h: "draw_history st = [draw_record 1 ''past'' c1 o1 k1 i1,
          draw_record 2 ''present'' c2 o2 k2 i2, draw_record 3 ''future'' c3 o3 k3 i3]"
    and o: "o1 = JStr ''upright'' \<or> o1 = JStr ''reversed''"
      "o2 = JStr ''upright'' \<or> o2 = JStr ''reversed''"
      "o3 = JStr ''upright'' \<or> o3 = JStr ''reversed''"
    by (rule main_run [OF m]) (rule that; assumption)
  show ?thesis
    unfolding h using o by (simp add: draw_record_def subscript_def)
qed

theorem session_draw_history_witness:
  "fst (main demo_world) = Inr (demo_state, JStr ''A calm review.'')
   \<and> length (draw_history demo_state) = 3
   \<and> map (\<lambda>d. subscript d ''position'') (draw_history demo_state)
       = [Inr (JStr ''past''), Inr (JStr ''present''), Inr (JStr ''future'')]"
proof -
  note t = session_draw_history [OF demo_main]
  from demo_main t [THEN conjunct1] t [THEN conjunct2, THEN conjunct1]
  show ?thesis by (intro conjI)
qed








text \<open>
  C2. Take a session that gets as far as the intent extraction: the card file is there
  and parses, the four templates are there, two lines are typed, the intent template is
  filled and the service answers the request. If the answer parses to an object without
  \<open>question\<close>, \<open>main\<close> ends with KeyError for \<open>question\<close>. All it has done is
  read the five files, prompt twice and send that one request: no random number was
  drawn (no card draw), no second request was sent (no retry), nothing was written, and
  the files and the random source are as they were.
\<close>

theorem missing_question_aborts:
  assumes "files w ''cards.json'' = Some ctext" "json_loads ctext = Inr cards"
    and "files w ''prompts/intent_parser.txt'' = Some ip"
    and "files w ''prompts/interpret_first.txt'' = Some fp"
    and "files w ''prompts/interpret_next.txt'' = Some np"
    and "files w ''prompts/final_review.txt'' = Some rp"
    and "stdin w = line1 # line2 # rest"
    and "format ip [(''player_text'', JStr (''[topic_hint='' @ strip line1 @ ''] '' @ strip line2))]
           = Inr f0"
    and "service w (requests (trace w) @ [(f0, True)]) = Inr content"
    and "json_loads content = Inr (JObj kvs)"
    and "map_of kvs ''question'' = None"
  shows "fst (main w) = Inl (KeyError (JStr ''question''))
       \<and> new_events main w =
       [ReadFile ''cards.json'', ReadFile ''prompts/intent_parser.txt'',
        ReadFile ''prompts/interpret_first.txt'', ReadFile ''prompts/interpret_next.txt'',
        ReadFile ''prompts/final_review.txt'', Input, Input,
        LlmCall [(''player_text'', JStr (''[topic_hint='' @ strip line1 @ ''] '' @ strip line2))]
          f0 True]
       \<and> files (snd (main w)) = files w
       \<and> rng (snd (main w)) = rng w"
  unfolding new_events_def main_missing_question_run [OF assms] by simp

theorem missing_question_aborts_witness:
  \<open>files no_question_world ''cards.json'' = Some demo_cards_text
   \<and> json_loads demo_cards_text = Inr (JArr demo_deck)
   \<and> stdin no_question_world = '' love '' # ''Will we reconcile?'' # []
   \<and> format ''Parse this: {player_text}''
        [(''player_text'', JStr (''[topic_hint='' @ strip '' love '' @ ''] '' @ strip ''Will we reconcile?''))]
       = Inr ''Parse this: [topic_hint=love] Will we reconcile?''
   \<and> service no_question_world
        (requests (trace no_question_world) @ [(''Parse this: [topic_hint=love] Will we reconcile?'', True)])
       = Inr ''{"topic": "love"}''
   \<and> json_loads ''{"topic": "love"}'' = Inr (JObj [(''topic'', JStr ''love'')])
   \<and> map_of [(''topic'', JStr ''love'')] ''question'' = None
   \<and> fst (main no_question_world) = Inl (KeyError (JStr ''question''))
   \<and> files (snd (main no_question_world)) = files no_question_world\<close>
proof -
  note w = no_question_world_def demo_world_def demo_files_def
  have h1: "files no_question_world ''cards.json'' = Some demo_cards_text"
    by (simp add: w)
  have h2: "json_loads demo_cards_text = Inr (JArr demo_deck)"
    by code_simp
  have h3: "files no_question_world ''prompts/intent_parser.txt'' = Some ''Parse this: {player_text}''"
    by (simp add: w)
  have h4: "files no_question_world ''prompts/interpret_first.txt''
      = Some ''{position}: {card_name} ({orientation}) {keywords} about {question}''"
    by (simp add: w)
  have h5: "files no_question_world ''prompts/interpret_next.txt''
      = Some ''Step {step}, {position}: {card_name} ({orientation}), so far {history_json}''"
    by (simp add: w)
  have h6: "files no_question_world ''prompts/final_review.txt''
      = Some ''Review {topic} / {question}: {history_json}''"
    by (simp add: w)
  have h7: "stdin no_question_world = '' love '' # ''Will we reconcile?'' # []"
    by (simp add: w)
  have h8: "format ''Parse this: {player_text}''
        [(''player_text'', JStr (''[topic_hint='' @ strip '' love '' @ ''] '' @ strip ''Will we reconcile?''))]
       = Inr ''Parse this: [topic_hint=love] Will we reconcile?''"
    by code_simp
  have h9: \<open>service no_question_world
        (requests (trace no_question_world) @ [(''Parse this: [topic_hint=love] Will we reconcile?'', True)])
       = Inr ''{"topic": "love"}''\<close>
    by (simp add: w)
  have h10: \<open>json_loads ''{"topic": "love"}'' = Inr (JObj [(''topic'', JStr ''love'')])\<close>
    by code_simp
  have h11: "map_of [(''topic'', JStr ''love'')] ''question'' = None"
    by simp
  note t = missing_question_aborts [OF h1 h2 h3 h4 h5 h6 h7 h8 h9 h10 h11]
  from h1 h2 h7 h8 h9 h10 h11 t [THEN conjunct1]
    t [THEN conjunct2, THEN conjunct2, THEN conjunct1]
  show ?thesis by (intro conjI)
qed

end
